theory Spec2Isabelle
  imports Main
begin

section \<open>Python values, exceptions and request bodies\<close>

text \<open>
  The module \<^verbatim>\<open>dirigera_lib_patch.py\<close> patches a hub client. Its methods talk to the
  hub through the client's \<^verbatim>\<open>get\<close>, \<^verbatim>\<open>post\<close>, \<^verbatim>\<open>patch\<close> and \<^verbatim>\<open>delete_scene\<close>.
  The hub is an external service: the model keeps the list of the calls a method issues
  (oldest first) and takes the answers to the reads as data of the hub state; the calls
  of the client are taken to return normally, its own failures being outside this module.

  Python strings are modelled as \<^typ>\<open>string\<close>. Every character the code inspects
  (the underscore, the ASCII digits, the line feed and the characters of the fixed
  prefix) is ASCII, and no byte of a multi-byte UTF-8 sequence equals an ASCII byte, so
  reading a string as its UTF-8 bytes changes none of the tests below.
\<close>

datatype py_exception =
    AssertionError string
  | ValueError string
  | TypeError string
  | KeyError string
  | ValidationError

datatype 'a outcome = Returns 'a | Raises py_exception

text \<open>
  \<^verbatim>\<open>isinstance(e, ValueError)\<close>: the validation error that the constructor of a
  pydantic model raises is a subclass of \<^verbatim>\<open>ValueError\<close>.
\<close>

fun is_ValueError :: "py_exception \<Rightarrow> bool" where
  "is_ValueError (ValueError msg) = True"
| "is_ValueError ValidationError = True"
| "is_ValueError _ = False"

text \<open>The bodies of the requests: Python dict and list literals, keys in source order.\<close>

datatype json =
    JNull
  | JBool bool
  | JInt int
  | JStr string
  | JList "json list"
  | JObj "(string \<times> json) list"

text \<open>\<^verbatim>\<open>d.get(k)\<close> and \<^verbatim>\<open>d[k]\<close> on such a value.\<close>

fun obj_get :: "json \<Rightarrow> string \<Rightarrow> json option" where
  "obj_get (JObj kvs) k = map_of kvs k"
| "obj_get _ _ = None"

fun py_getitem :: "json \<Rightarrow> string \<Rightarrow> json outcome" where
  "py_getitem (JObj kvs) k = (case map_of kvs k of None \<Rightarrow> Raises (KeyError k) | Some v \<Rightarrow> Returns v)"
| "py_getitem _ k = Raises (TypeError ''indices must be integers'')"

text \<open>
  The argument \<^verbatim>\<open>number_of_buttons\<close> is annotated \<^verbatim>\<open>int\<close> but coerced defensively, so
  callers may pass anything. \<open>PyNone\<close> is \<^verbatim>\<open>None\<close>, \<open>PyInt n\<close> an \<^verbatim>\<open>int\<close>, and
  \<open>PyOther r\<close> any other object (a string, a float, a bool, ...), represented by
  what the builtin \<^verbatim>\<open>int()\<close> does on it: it returns an integer or raises an exception
  derived from \<^verbatim>\<open>Exception\<close>.
\<close>

datatype py_value = PyNone | PyInt int | PyOther "int outcome"

fun py_int :: "py_value \<Rightarrow> int outcome" where
  "py_int PyNone = Raises (TypeError ''int() argument must be a string, a bytes-like object or a real number'')"
| "py_int (PyInt n) = Returns n"
| "py_int (PyOther r) = r"

subsection \<open>Strings\<close>

definition newline :: char where
  "newline = CHR 0x0A"

definition is_ascii_digit :: "char \<Rightarrow> bool" where
  "is_ascii_digit c = (c \<in> set ''0123456789'')"

text \<open>\<^verbatim>\<open>s.startswith(p)\<close>\<close>

definition startswith :: "string \<Rightarrow> string \<Rightarrow> bool" where
  "startswith s p = (take (length p) s = p)"

text \<open>\<^verbatim>\<open>str(i)\<close> of an integer, which is what an f-string field \<^verbatim>\<open>{i}\<close> renders.\<close>

definition digit_char :: "nat \<Rightarrow> char" where
  "digit_char d = ''0123456789'' ! d"

fun str_nat :: "nat \<Rightarrow> string" where
  "str_nat n = (if n < 10 then [digit_char n] else str_nat (n div 10) @ [digit_char (n mod 10)])"

definition py_str_int :: "int \<Rightarrow> string" where
  "py_str_int i = (if i < 0 then CHR ''-'' # str_nat (nat (- i)) else str_nat (nat i))"

subsection \<open>The pattern of a secondary controller id\<close>

text \<open>
  \<^verbatim>\<open>re.search(r"^(.*)_([0-9]+)$", controller_id)\<close>, with Python's default flags:
  \<^verbatim>\<open>^\<close> matches only at the start of the string, \<^verbatim>\<open>.\<close> matches every character but
  the line feed, \<^verbatim>\<open>[0-9]\<close> the ten ASCII digits, and \<^verbatim>\<open>$\<close> matches at the end of the
  string and also just before a line feed that is the last character.

  \<open>suffix_pattern_matches s g1 g2\<close> is this meaning, stated on the groups:
  \<open>g1\<close> is group 1 and \<open>g2\<close> group 2 of a match of the pattern on \<open>s\<close>.
\<close>

definition suffix_pattern_matches :: "string \<Rightarrow> string \<Rightarrow> string \<Rightarrow> bool" where
  "suffix_pattern_matches s g1 g2 =
     (newline \<notin> set g1 \<and> g2 \<noteq> [] \<and> list_all is_ascii_digit g2 \<and>
      (s = g1 @ ''_'' @ g2 \<or> s = g1 @ ''_'' @ g2 @ [newline]))"

text \<open>
  The matcher: the groups of the match, or \<open>None\<close> when \<^verbatim>\<open>re.search\<close> returns
  \<^verbatim>\<open>None\<close>. The digits of group 2 are the whole run of digits before the end (or before
  the final line feed), since the character before group 2 is an underscore.
\<close>

definition re_search_suffix :: "string \<Rightarrow> (string \<times> string) option" where
  "re_search_suffix s =
     (let body = (if s \<noteq> [] \<and> last s = newline then butlast s else s);
          ds = takeWhile is_ascii_digit (rev body);
          rest = dropWhile is_ascii_digit (rev body)
      in case rest of
           [] \<Rightarrow> None
         | c # pre \<Rightarrow>
             if ds \<noteq> [] \<and> c = CHR ''_'' \<and> newline \<notin> set pre
             then Some (rev pre, rev ds) else None)"

section \<open>The hub\<close>

text \<open>
  A scene as \<^verbatim>\<open>GET /scenes\<close> lists it (the keys \<^verbatim>\<open>parse_scene_json\<close> reads), and the
  object \<^verbatim>\<open>HackScene\<close> built from it.
\<close>

record scene_info =
  info_name :: string
  info_icon :: string

record scene_json =
  sj_id :: string
  sj_info :: scene_info

record hack_scene =
  hs_id :: string
  hs_name :: string
  hs_icon :: string

text \<open>
  A device object: the fields of the library's \<^verbatim>\<open>Device\<close> model that \<^verbatim>\<open>set_name\<close> reads
  or writes. The attribute classes of this module (\<^verbatim>\<open>ControllerAttributesX\<close>,
  \<^verbatim>\<open>MotionSensorAttributesX\<close>, \<^verbatim>\<open>EnvironmentSensorAttributesX\<close>) only add optional
  fields that no method of the module touches.
\<close>

record capabilities =
  can_send :: "string list"
  can_receive :: "string list"

record attributes =
  custom_name :: string

record device =
  device_id :: string
  deviceType :: string
  device_capabilities :: capabilities
  device_attributes :: attributes

text \<open>
  The client: \<open>hub_calls\<close> lists the writing calls issued so far, \<open>hub_scenes\<close> is
  the answer of \<^verbatim>\<open>GET /scenes\<close> and \<open>hub_devices\<close> that of \<^verbatim>\<open>GET /devices\<close> (the
  device dicts as the hub sends them) when a method reads them. A method reads at most
  once, before any of its writes.
\<close>

datatype hub_call =
    POST string json
  | PATCH string json
  | DELETE_SCENE string

record hub =
  hub_calls :: "hub_call list"
  hub_scenes :: "scene_json list"
  hub_devices :: "json list"

definition hub_post :: "hub \<Rightarrow> string \<Rightarrow> json \<Rightarrow> hub" where
  "hub_post h route data = h\<lparr>hub_calls := hub_calls h @ [POST route data]\<rparr>"

definition hub_patch :: "hub \<Rightarrow> string \<Rightarrow> json \<Rightarrow> hub" where
  "hub_patch h route data = h\<lparr>hub_calls := hub_calls h @ [PATCH route data]\<rparr>"

definition delete_scene :: "hub \<Rightarrow> string \<Rightarrow> hub" where
  "delete_scene h scene_id = h\<lparr>hub_calls := hub_calls h @ [DELETE_SCENE scene_id]\<rparr>"

section \<open>Creating the empty scenes\<close>

text \<open>
  \<^verbatim>\<open>
  try:
      number_of_buttons = int(number_of_buttons) if number_of_buttons is not None else 1
  except Exception:
      number_of_buttons = 1
  \<close>
\<close>

definition coerce_number_of_buttons :: "py_value \<Rightarrow> int" where
  "coerce_number_of_buttons v =
     (if v \<noteq> PyNone
      then (case py_int v of Returns n \<Rightarrow> n | Raises e \<Rightarrow> 1)
      else 1)"

text \<open>
  \<^verbatim>\<open>
  allow_multibutton = number_of_buttons > 1
  m = re.search(r"^(.*)_([0-9]+)$", controller_id)
  if m is not None and m.group(2) != "1":
      allow_multibutton = False
  \<close>
\<close>

definition allow_multibutton :: "string \<Rightarrow> int \<Rightarrow> bool" where
  "allow_multibutton controller_id number_of_buttons =
     (case re_search_suffix controller_id of
        None \<Rightarrow> number_of_buttons > 1
      | Some (g1, g2) \<Rightarrow> if g2 \<noteq> ''1'' then False else number_of_buttons > 1)"

definition scene_name :: "string \<Rightarrow> string \<Rightarrow> int \<Rightarrow> string \<Rightarrow> string" where
  "scene_name controller_id controller_type button_index click_pattern =
     ''dirigera_integration_empty_scene_'' @ controller_id @ ''_'' @ controller_type @ ''_''
       @ py_str_int button_index @ ''_'' @ click_pattern"

definition empty_scene_data :: "string \<Rightarrow> string \<Rightarrow> string \<Rightarrow> int \<Rightarrow> json" where
  "empty_scene_data controller_id click_pattern controller_type button_index =
     JObj [
       (''info'', JObj [
          (''name'', JStr (scene_name controller_id controller_type button_index click_pattern)),
          (''icon'', JStr ''scenes_cake'')]),
       (''type'', JStr ''customScene''),
       (''triggers'', JList [
          JObj [
            (''type'', JStr ''controller''),
            (''disabled'', JBool False),
            (''trigger'', JObj [
               (''controllerType'', JStr controller_type),
               (''clickPattern'', JStr click_pattern),
               (''buttonIndex'', JInt button_index),
               (''deviceId'', JStr controller_id)])]]),
       (''actions'', JList [])]"

text \<open>The inner function \<^verbatim>\<open>_post_empty_scene\<close>; \<open>controller_id\<close> is its closure variable.\<close>

definition post_empty_scene :: "string \<Rightarrow> hub \<Rightarrow> string \<Rightarrow> string \<Rightarrow> int \<Rightarrow> hub" where
  "post_empty_scene controller_id h click_pattern controller_type button_index =
     hub_post h ''/scenes/'' (empty_scene_data controller_id click_pattern controller_type button_index)"

text \<open>
  \<^verbatim>\<open>
  for click in clicks_supported:
      _post_empty_scene(click, "shortcutController", 0)
      if allow_multibutton:
          for btn_idx in range(1, number_of_buttons + 1):
              _post_empty_scene(click, "lightController", btn_idx)
  \<close>
\<close>

definition create_empty_scene :: "hub \<Rightarrow> string \<Rightarrow> string list \<Rightarrow> py_value \<Rightarrow> hub" where
  "create_empty_scene h controller_id clicks_supported number_of_buttons =
     (let n = coerce_number_of_buttons number_of_buttons;
          allow = allow_multibutton controller_id n
      in foldl (\<lambda>h click.
                  let h1 = post_empty_scene controller_id h click ''shortcutController'' 0
                  in if allow
                     then foldl (\<lambda>h btn_idx. post_empty_scene controller_id h click ''lightController'' btn_idx)
                            h1 [1..n]
                     else h1)
           h clicks_supported)"


section \<open>Deleting the empty scenes\<close>

definition parse_scene_json :: "scene_json \<Rightarrow> string \<times> string \<times> string" where
  "parse_scene_json json_data =
     (sj_id json_data, info_name (sj_info json_data), info_icon (sj_info json_data))"

definition make_scene :: "scene_json \<Rightarrow> hack_scene" where
  "make_scene json_data =
     (case parse_scene_json json_data of
        (i, n, ic) \<Rightarrow> \<lparr>hs_id = i, hs_name = n, hs_icon = ic\<rparr>)"

definition get_scenes :: "hub \<Rightarrow> hack_scene list" where
  "get_scenes h = map make_scene (hub_scenes h)"

text \<open>
  \<^verbatim>\<open>
  scenes = self.get_scenes()
  for scene in scenes:
      if scene.name.startswith("dirigera_integration_empty_scene_"):
          self.delete_scene(scene.id)
  \<close>
\<close>

definition delete_empty_scenes :: "hub \<Rightarrow> hub" where
  "delete_empty_scenes h =
     foldl (\<lambda>h scene.
              if startswith (hs_name scene) ''dirigera_integration_empty_scene_''
              then delete_scene h (hs_id scene)
              else h)
       h (get_scenes h)"

section \<open>Fetching a sensor by id\<close>

text \<open>
  The library's \<^verbatim>\<open>_get_device_data_by_id\<close> reads \<^verbatim>\<open>/devices/<id>\<close> and returns the
  dict of the device; for an id the hub does not know it raises
  \<^verbatim>\<open>ValueError("Device id not found")\<close>.
\<close>

definition get_device_data_by_id :: "hub \<Rightarrow> string \<Rightarrow> json outcome" where
  "get_device_data_by_id h i =
     (case find (\<lambda>d. obj_get d ''id'' = Some (JStr i)) (hub_devices h) of
        None \<Rightarrow> Raises (ValueError ''Device id not found'')
      | Some d \<Rightarrow> Returns d)"

text \<open>
  The patched device classes. An object is its class and the data it was built from; its
  reference to the client is the hub state that the methods take as an argument.
\<close>

datatype device_x = ControllerX json | MotionSensorX json | EnvironmentSensorX json

text \<open>
  The constructors \<^verbatim>\<open>ControllerX(dirigeraClient=..., **data)\<close> and its two siblings are
  those of pydantic models: they validate the data and raise a validation error when it
  does not fit. Each class of this module declares \<^verbatim>\<open>attributes\<close> with no default, so
  the key \<^verbatim>\<open>attributes\<close> must be there and hold a dict. The rest of the validation
  (the fields of the library's \<^verbatim>\<open>Device\<close> and \<^verbatim>\<open>Attributes\<close> models, the types of the
  optional attributes) is the parameter \<open>accepts\<close>.
\<close>

definition has_attributes :: "json \<Rightarrow> bool" where
  "has_attributes data = (case obj_get data ''attributes'' of Some (JObj a) \<Rightarrow> True | _ \<Rightarrow> False)"

text \<open>The most permissive rest of the validation: the library's models accept every dict.\<close>

definition lenient :: "json \<Rightarrow> bool" where
  "lenient data = True"

definition dict_to_environment_sensor_x :: "(json \<Rightarrow> bool) \<Rightarrow> json \<Rightarrow> hub \<Rightarrow> device_x outcome" where
  "dict_to_environment_sensor_x accepts data dirigera_client =
     (if has_attributes data \<and> accepts data
      then Returns (EnvironmentSensorX data) else Raises ValidationError)"

definition dict_to_controller :: "(json \<Rightarrow> bool) \<Rightarrow> json \<Rightarrow> hub \<Rightarrow> device_x outcome" where
  "dict_to_controller accepts data dirigera_client =
     (if has_attributes data \<and> accepts data
      then Returns (ControllerX data) else Raises ValidationError)"

definition dict_to_motion_sensor_x :: "(json \<Rightarrow> bool) \<Rightarrow> json \<Rightarrow> hub \<Rightarrow> device_x outcome" where
  "dict_to_motion_sensor_x accepts data dirigera_client =
     (if has_attributes data \<and> accepts data
      then Returns (MotionSensorX data) else Raises ValidationError)"

text \<open>
  \<^verbatim>\<open>
  motion_sensor = self._get_device_data_by_id(id_)
  if motion_sensor["deviceType"] not in ("motionSensor", "occupancySensor"):
      raise ValueError("Device is not a MotionSensor or OccupancySensor")
  return dict_to_motion_sensor_x(motion_sensor, self)
  \<close>
\<close>

definition get_motion_sensor_by_id :: "(json \<Rightarrow> bool) \<Rightarrow> hub \<Rightarrow> string \<Rightarrow> device_x outcome" where
  "get_motion_sensor_by_id accepts h i =
     (case get_device_data_by_id h i of
        Raises e \<Rightarrow> Raises e
      | Returns motion_sensor \<Rightarrow>
          (case py_getitem motion_sensor ''deviceType'' of
             Raises e \<Rightarrow> Raises e
           | Returns t \<Rightarrow>
               if t \<notin> set [JStr ''motionSensor'', JStr ''occupancySensor'']
               then Raises (ValueError ''Device is not a MotionSensor or OccupancySensor'')
               else dict_to_motion_sensor_x accepts motion_sensor h))"

definition get_environment_sensor_by_id :: "(json \<Rightarrow> bool) \<Rightarrow> hub \<Rightarrow> string \<Rightarrow> device_x outcome" where
  "get_environment_sensor_by_id accepts h i =
     (case get_device_data_by_id h i of
        Raises e \<Rightarrow> Raises e
      | Returns sensor \<Rightarrow>
          (case py_getitem sensor ''deviceType'' of
             Raises e \<Rightarrow> Raises e
           | Returns t \<Rightarrow>
               if t \<noteq> JStr ''environmentSensor''
               then Raises (ValueError ''Device is not an EnvironmentSensor'')
               else dict_to_environment_sensor_x accepts sensor h))"

section \<open>Renaming a device\<close>

text \<open>
  \<^verbatim>\<open>
  def set_name(self, name: str) -> None:
      if "customName" not in self.capabilities.can_receive:
          raise AssertionError("This controller does not support the set_name function")
      data = [{"attributes": {"customName": name}}]
      self.dirigera_client.patch(route=f"/devices/{self.id}", data=data)
      self.attributes.custom_name = name
  \<close>
  The three classes each have this method, with their own message. The result is the
  outcome of the call together with the hub and the object as the call leaves them.
\<close>

definition ControllerX_set_name :: "hub \<Rightarrow> device \<Rightarrow> string \<Rightarrow> unit outcome \<times> hub \<times> device" where
  "ControllerX_set_name h self name =
     (if ''customName'' \<notin> set (can_receive (device_capabilities self))
      then (Raises (AssertionError ''This controller does not support the set_name function''), h, self)
      else
        let data = JList [JObj [(''attributes'', JObj [(''customName'', JStr name)])]];
            h' = hub_patch h (''/devices/'' @ device_id self) data
        in (Returns (), h', self\<lparr>device_attributes := (device_attributes self)\<lparr>custom_name := name\<rparr>\<rparr>))"

definition MotionSensorX_set_name :: "hub \<Rightarrow> device \<Rightarrow> string \<Rightarrow> unit outcome \<times> hub \<times> device" where
  "MotionSensorX_set_name h self name =
     (if ''customName'' \<notin> set (can_receive (device_capabilities self))
      then (Raises (AssertionError ''This sensor does not support the set_name function''), h, self)
      else
        let data = JList [JObj [(''attributes'', JObj [(''customName'', JStr name)])]];
            h' = hub_patch h (''/devices/'' @ device_id self) data
        in (Returns (), h', self\<lparr>device_attributes := (device_attributes self)\<lparr>custom_name := name\<rparr>\<rparr>))"

definition EnvironmentSensorX_set_name :: "hub \<Rightarrow> device \<Rightarrow> string \<Rightarrow> unit outcome \<times> hub \<times> device" where
  "EnvironmentSensorX_set_name h self name =
     (if ''customName'' \<notin> set (can_receive (device_capabilities self))
      then (Raises (AssertionError ''This sensor does not support the set_name function''), h, self)
      else
        let data = JList [JObj [(''attributes'', JObj [(''customName'', JStr name)])]];
            h' = hub_patch h (''/devices/'' @ device_id self) data
        in (Returns (), h', self\<lparr>device_attributes := (device_attributes self)\<lparr>custom_name := name\<rparr>\<rparr>))"

section \<open>Observing the calls\<close>

text \<open>
  What the statements below read off a hub state: the calls a method added, the fields
  of a posted scene, and the calls one click pattern gives rise to.
\<close>



text \<open>The calls of one round of the loop over \<^verbatim>\<open>clicks_supported\<close>.\<close>

definition click_calls :: "string \<Rightarrow> bool \<Rightarrow> int \<Rightarrow> string \<Rightarrow> hub_call list" where
  "click_calls controller_id allow n click =
     POST ''/scenes/'' (empty_scene_data controller_id click ''shortcutController'' 0) #
     (if allow
      then map (\<lambda>b. POST ''/scenes/'' (empty_scene_data controller_id click ''lightController'' b)) [1..n]
      else [])"

text \<open>
  The suffix of a controller id in the words of the specification: the digits \<open>d\<close>
  of an id of the form \<open>p_d\<close>, when the id ends in an underscore followed by one or
  more digits.
\<close>

definition numeric_suffix :: "string \<Rightarrow> string option" where
  "numeric_suffix s =
     (let ds = takeWhile is_ascii_digit (rev s);
          rest = dropWhile is_ascii_digit (rev s)
      in case rest of
           [] \<Rightarrow> None
         | c # pre \<Rightarrow> if ds \<noteq> [] \<and> c = CHR ''_'' then Some (rev ds) else None)"

definition posted_name :: "json \<Rightarrow> json option" where
  "posted_name data = (case obj_get data ''info'' of Some i \<Rightarrow> obj_get i ''name'' | None \<Rightarrow> None)"

definition posted_trigger_field :: "json \<Rightarrow> string \<Rightarrow> json option" where
  "posted_trigger_field data k =
     (case obj_get data ''triggers'' of
        Some (JList (t # ts)) \<Rightarrow>
          (case obj_get t ''trigger'' of Some d \<Rightarrow> obj_get d k | None \<Rightarrow> None)
      | _ \<Rightarrow> None)"

fun call_trigger_field :: "hub_call \<Rightarrow> string \<Rightarrow> json option" where
  "call_trigger_field (POST route data) k = posted_trigger_field data k"
| "call_trigger_field _ k = None"

fun call_scene_name :: "hub_call \<Rightarrow> json option" where
  "call_scene_name (POST route data) = posted_name data"
| "call_scene_name _ = None"

definition new_calls :: "hub \<Rightarrow> hub \<Rightarrow> hub_call list" where
  "new_calls h h' = drop (length (hub_calls h)) (hub_calls h')"

definition legacy_call :: "string \<Rightarrow> string \<Rightarrow> hub_call" where
  "legacy_call controller_id click =
     POST ''/scenes/'' (empty_scene_data controller_id click ''shortcutController'' 0)"

definition multibutton_call :: "string \<Rightarrow> string \<Rightarrow> int \<Rightarrow> hub_call" where
  "multibutton_call controller_id click btn_idx =
     POST ''/scenes/'' (empty_scene_data controller_id click ''lightController'' btn_idx)"

section \<open>The calls of \<^verbatim>\<open>create_empty_scene\<close>\<close>

lemma hub_calls_post_empty_scene:
  "hub_calls (post_empty_scene cid h click ctype b) =
     hub_calls h @ [POST ''/scenes/'' (empty_scene_data cid click ctype b)]"
  by (simp add: post_empty_scene_def hub_post_def)

lemma hub_calls_button_loop:
  "hub_calls (foldl (\<lambda>h b. post_empty_scene cid h click ctype b) h bs) =
     hub_calls h @ map (\<lambda>b. POST ''/scenes/'' (empty_scene_data cid click ctype b)) bs"
  by (induction bs arbitrary: h) (simp_all add: hub_calls_post_empty_scene)

lemma hub_calls_click_step:
  "hub_calls (if allow
              then foldl (\<lambda>h b. post_empty_scene cid h click ''lightController'' b)
                     (post_empty_scene cid h click ''shortcutController'' 0) [1..n]
              else post_empty_scene cid h click ''shortcutController'' 0) =
     hub_calls h @ click_calls cid allow n click"
  by (simp add: click_calls_def hub_calls_button_loop hub_calls_post_empty_scene)

lemma hub_calls_click_loop:
  "hub_calls (foldl (\<lambda>h click.
                  if allow
                  then foldl (\<lambda>h b. post_empty_scene cid h click ''lightController'' b)
                         (post_empty_scene cid h click ''shortcutController'' 0) [1..n]
                  else post_empty_scene cid h click ''shortcutController'' 0) h clicks) =
     hub_calls h @ concat (map (click_calls cid allow n) clicks)"
proof (induction clicks arbitrary: h)
  case Nil
  show ?case by simp
next
  case (Cons c cs)
  show ?case
    by (simp only: foldl_Cons Cons.IH hub_calls_click_step list.map concat.simps append_assoc)
qed

lemma create_empty_scene_calls:
  "hub_calls (create_empty_scene h cid clicks nb) =
     hub_calls h @
     concat (map (click_calls cid (allow_multibutton cid (coerce_number_of_buttons nb))
                    (coerce_number_of_buttons nb)) clicks)"
  unfolding create_empty_scene_def Let_def by (rule hub_calls_click_loop)

section \<open>The pattern and the suffix of an id\<close>

text \<open>
  The matcher computes the meaning of the pattern, and the suffix function the suffix as
  the specification words it.
\<close>

lemma underscore_no_digit: "\<not> is_ascii_digit CHR ''_''"
  by (simp add: is_ascii_digit_def)

lemma newline_no_digit: "\<not> is_ascii_digit newline"
  by (simp add: is_ascii_digit_def newline_def)

lemma digit_run_split:
  assumes "list_all is_ascii_digit d"
  shows "takeWhile is_ascii_digit (rev (p @ ''_'' @ d)) = rev d"
    and "dropWhile is_ascii_digit (rev (p @ ''_'' @ d)) = CHR ''_'' # rev p"
proof -
  have all: "\<And>x. x \<in> set (rev d) \<Longrightarrow> is_ascii_digit x"
    using assms by (simp add: list_all_iff)
  have r: "rev (p @ ''_'' @ d) = rev d @ CHR ''_'' # rev p" by simp
  have "takeWhile is_ascii_digit (rev d @ CHR ''_'' # rev p) =
          rev d @ takeWhile is_ascii_digit (CHR ''_'' # rev p)"
    by (rule takeWhile_append2) (rule all)
  then show "takeWhile is_ascii_digit (rev (p @ ''_'' @ d)) = rev d"
    unfolding r by (simp add: underscore_no_digit)
  have "dropWhile is_ascii_digit (rev d @ CHR ''_'' # rev p) =
          dropWhile is_ascii_digit (CHR ''_'' # rev p)"
    by (rule dropWhile_append2) (rule all)
  then show "dropWhile is_ascii_digit (rev (p @ ''_'' @ d)) = CHR ''_'' # rev p"
    unfolding r by (simp add: underscore_no_digit)
qed

lemma digit_run_join:
  assumes "dropWhile is_ascii_digit (rev b) = c # pre"
  shows "b = rev pre @ [c] @ rev (takeWhile is_ascii_digit (rev b))"
proof -
  have "rev b = takeWhile is_ascii_digit (rev b) @ c # pre"
    using assms takeWhile_dropWhile_id [of is_ascii_digit "rev b"] by simp
  then have "rev (rev b) = rev (takeWhile is_ascii_digit (rev b) @ c # pre)" by simp
  then show ?thesis by simp
qed

lemma numeric_suffix_iff:
  "numeric_suffix s = Some d \<longleftrightarrow>
     (\<exists>p. s = p @ ''_'' @ d) \<and> d \<noteq> [] \<and> list_all is_ascii_digit d"
proof
  assume a: "numeric_suffix s = Some d"
  then obtain c pre where rest: "dropWhile is_ascii_digit (rev s) = c # pre"
    by (auto simp: numeric_suffix_def Let_def split: list.splits)
  from a rest have c: "c = CHR ''_''" and ne: "takeWhile is_ascii_digit (rev s) \<noteq> []"
    and d: "d = rev (takeWhile is_ascii_digit (rev s))"
    by (auto simp: numeric_suffix_def Let_def split: if_splits)
  have "s = rev pre @ ''_'' @ d" using digit_run_join [OF rest] c d by simp
  moreover have "list_all is_ascii_digit d"
    unfolding d list_all_iff using set_takeWhileD by fastforce
  ultimately show "(\<exists>p. s = p @ ''_'' @ d) \<and> d \<noteq> [] \<and> list_all is_ascii_digit d"
    using ne d by blast
next
  assume "(\<exists>p. s = p @ ''_'' @ d) \<and> d \<noteq> [] \<and> list_all is_ascii_digit d"
  then obtain p where s: "s = p @ ''_'' @ d" and ne: "d \<noteq> []" and dg: "list_all is_ascii_digit d"
    by blast
  show "numeric_suffix s = Some d"
    unfolding numeric_suffix_def Let_def s digit_run_split [OF dg] using ne by simp
qed

lemma re_search_suffix_iff:
  "re_search_suffix s = Some (g1, g2) \<longleftrightarrow> suffix_pattern_matches s g1 g2"
proof
  assume a: "re_search_suffix s = Some (g1, g2)"
  define body where "body = (if s \<noteq> [] \<and> last s = newline then butlast s else s)"
  from a obtain c pre where rest: "dropWhile is_ascii_digit (rev body) = c # pre"
    by (auto simp: re_search_suffix_def Let_def body_def split: list.splits)
  from a rest have c: "c = CHR ''_''" and ne: "takeWhile is_ascii_digit (rev body) \<noteq> []"
    and nl: "newline \<notin> set pre" and g1: "g1 = rev pre"
    and g2: "g2 = rev (takeWhile is_ascii_digit (rev body))"
    unfolding re_search_suffix_def Let_def body_def [symmetric]
    by (auto split: if_splits)
  have b: "body = g1 @ ''_'' @ g2" using digit_run_join [OF rest] c g1 g2 by simp
  have dg: "list_all is_ascii_digit g2"
    unfolding g2 list_all_iff using set_takeWhileD by fastforce
  have sb: "s = body \<or> s = body @ [newline]"
  proof (cases "s \<noteq> [] \<and> last s = newline")
    case True
    then have "butlast s @ [newline] = s" using append_butlast_last_id [of s] by simp
    then show ?thesis using True by (simp add: body_def)
  next
    case False
    then show ?thesis by (auto simp: body_def)
  qed
  have n1: "newline \<notin> set g1" using nl g1 by simp
  have n2: "g2 \<noteq> []" using ne g2 by simp
  have "s = g1 @ ''_'' @ g2 \<or> s = g1 @ ''_'' @ g2 @ [newline]"
    using sb by (simp add: b)
  then show "suffix_pattern_matches s g1 g2"
    unfolding suffix_pattern_matches_def using n1 n2 dg by blast
next
  assume m: "suffix_pattern_matches s g1 g2"
  then have nl: "newline \<notin> set g1" and ne: "g2 \<noteq> []" and dg: "list_all is_ascii_digit g2"
    and s: "s = g1 @ ''_'' @ g2 \<or> s = g1 @ ''_'' @ g2 @ [newline]"
    by (auto simp: suffix_pattern_matches_def)
  have lastd: "last g2 \<noteq> newline"
    using ne dg newline_no_digit by (metis last_in_set list_all_iff)
  have body: "(if s \<noteq> [] \<and> last s = newline then butlast s else s) = g1 @ ''_'' @ g2"
    using s
  proof
    assume "s = g1 @ ''_'' @ g2"
    then show ?thesis using ne lastd by simp
  next
    assume e: "s = g1 @ ''_'' @ g2 @ [newline]"
    then have "butlast s = g1 @ ''_'' @ g2"
      by (simp add: butlast_append)
    then show ?thesis using e by simp
  qed
  show "re_search_suffix s = Some (g1, g2)"
    unfolding re_search_suffix_def body Let_def digit_run_split [OF dg]
    using ne nl by simp
qed

section \<open>The fields of a posted scene\<close>

lemma posted_name_empty_scene_data:
  "posted_name (empty_scene_data cid click ctype b) = Some (JStr (scene_name cid ctype b click))"
  by (simp add: posted_name_def empty_scene_data_def)

lemma posted_trigger_field_empty_scene_data:
  "posted_trigger_field (empty_scene_data cid click ctype b) ''controllerType'' = Some (JStr ctype)"
  "posted_trigger_field (empty_scene_data cid click ctype b) ''clickPattern'' = Some (JStr click)"
  "posted_trigger_field (empty_scene_data cid click ctype b) ''buttonIndex'' = Some (JInt b)"
  "posted_trigger_field (empty_scene_data cid click ctype b) ''deviceId'' = Some (JStr cid)"
  by (simp_all add: posted_trigger_field_def empty_scene_data_def)

lemma new_calls_create_empty_scene:
  "new_calls h (create_empty_scene h cid clicks nb) =
     concat (map (click_calls cid (allow_multibutton cid (coerce_number_of_buttons nb))
                    (coerce_number_of_buttons nb)) clicks)"
  by (simp add: new_calls_def create_empty_scene_calls)

lemma click_calls_legacy_only: "click_calls cid False n click = [legacy_call cid click]"
  by (simp add: click_calls_def legacy_call_def)

lemma click_calls_multibutton:
  "click_calls cid True n click = legacy_call cid click # map (multibutton_call cid click) [1..n]"
  by (simp add: click_calls_def legacy_call_def multibutton_call_def)

lemma concat_map_singleton: "concat (map (\<lambda>x. [f x]) xs) = map f xs"
  by (induction xs) simp_all



lemma coerce_fallback:
  "nb = PyNone \<or> (\<exists>e. py_int nb = Raises e) \<Longrightarrow> coerce_number_of_buttons nb = 1"
  by (auto simp: coerce_number_of_buttons_def)

lemma allow_multibutton_needs_more_than_one:
  "n \<le> 1 \<Longrightarrow> \<not> allow_multibutton cid n"
  by (auto simp: allow_multibutton_def split: option.splits)

lemma legacy_only_calls:
  "coerce_number_of_buttons nb \<le> 1 \<Longrightarrow>
     hub_calls (create_empty_scene h cid clicks nb) = hub_calls h @ map (legacy_call cid) clicks"
  by (simp add: create_empty_scene_calls allow_multibutton_needs_more_than_one
        click_calls_legacy_only [abs_def] concat_map_singleton)

lemma click_calls_cases:
  assumes "c \<in> set (click_calls cid allow n click)"
  shows "c = legacy_call cid click \<or> (\<exists>b. allow \<and> 1 \<le> b \<and> b \<le> n \<and> c = multibutton_call cid click b)"
  using assms by (auto simp: click_calls_def legacy_call_def multibutton_call_def split: if_splits)

lemma created_call_cases:
  assumes "c \<in> set (new_calls h (create_empty_scene h cid clicks nb))"
  shows "\<exists>click ctype b. click \<in> set clicks \<and>
           c = POST ''/scenes/'' (empty_scene_data cid click ctype b) \<and>
           (ctype = ''shortcutController'' \<and> b = 0 \<or>
            ctype = ''lightController'' \<and> 1 \<le> b \<and> b \<le> coerce_number_of_buttons nb)"
proof -
  from assms obtain click where cl: "click \<in> set clicks"
    and c: "c \<in> set (click_calls cid (allow_multibutton cid (coerce_number_of_buttons nb))
                      (coerce_number_of_buttons nb) click)"
    by (auto simp: new_calls_create_empty_scene)
  from click_calls_cases [OF c] cl show ?thesis
    unfolding legacy_call_def multibutton_call_def by blast
qed

lemma scene_name_prefix:
  "startswith (scene_name cid ctype b click) ''dirigera_integration_empty_scene_''"
  by (simp add: scene_name_def startswith_def)


section \<open>Properties of \<^verbatim>\<open>create_empty_scene\<close>\<close>

text \<open>
  Claim C10. With an empty \<^verbatim>\<open>clicks_supported\<close>, \<^verbatim>\<open>create_empty_scene\<close> creates no
  scene and issues no call to the hub, for every controller id and every
  \<^verbatim>\<open>number_of_buttons\<close>: the hub is left as it was.
\<close>

theorem create_empty_scene_no_clicks:
  "create_empty_scene h controller_id [] number_of_buttons = h \<and>
   new_calls h (create_empty_scene h controller_id [] number_of_buttons) = []"
  by (simp add: create_empty_scene_def new_calls_def)

theorem create_empty_scene_no_clicks_witness:
  "new_calls \<lparr>hub_calls = [], hub_scenes = [], hub_devices = []\<rparr>
     (create_empty_scene \<lparr>hub_calls = [], hub_scenes = [], hub_devices = []\<rparr> ''abc_1'' [] (PyInt 5)) = []"
  using create_empty_scene_no_clicks
    [of "\<lparr>hub_calls = [], hub_scenes = [], hub_devices = []\<rparr>" "''abc_1''" "PyInt 5"]
  by blast

text \<open>
  Claim C7. When \<^verbatim>\<open>number_of_buttons\<close> is \<^verbatim>\<open>None\<close>, or \<^verbatim>\<open>int()\<close> raises on it, the
  coercion does not raise: the button count is 1 and the calls issued are the legacy
  scenes, one for each click pattern, and nothing else.
\<close>

theorem create_empty_scene_coercion_fallback:
  assumes "number_of_buttons = PyNone \<or> (\<exists>e. py_int number_of_buttons = Raises e)"
  shows "coerce_number_of_buttons number_of_buttons = 1 \<and>
         new_calls h (create_empty_scene h controller_id clicks number_of_buttons) =
           map (legacy_call controller_id) clicks"
proof -
  have one: "coerce_number_of_buttons number_of_buttons = 1"
    using assms by (rule coerce_fallback)
  then have "hub_calls (create_empty_scene h controller_id clicks number_of_buttons) =
      hub_calls h @ map (legacy_call controller_id) clicks"
    by (simp add: legacy_only_calls)
  with one show ?thesis by (simp add: new_calls_def)
qed

theorem create_empty_scene_coercion_fallback_witness:
  "new_calls \<lparr>hub_calls = [], hub_scenes = [], hub_devices = []\<rparr>
     (create_empty_scene \<lparr>hub_calls = [], hub_scenes = [], hub_devices = []\<rparr> ''abc''
        [''singlePress''] (PyOther (Raises (ValueError ''invalid literal for int()'')))) =
   [legacy_call ''abc'' ''singlePress'']"
  using create_empty_scene_coercion_fallback
    [of "PyOther (Raises (ValueError ''invalid literal for int()''))"
        "\<lparr>hub_calls = [], hub_scenes = [], hub_devices = []\<rparr>" "''abc''" "[''singlePress'']"]
  by simp



text \<open>
  Claim C5. For every controller id, list of click patterns and \<^verbatim>\<open>number_of_buttons\<close>,
  every scene that \<^verbatim>\<open>create_empty_scene\<close> posts has a name (the \<^verbatim>\<open>info.name\<close> of the
  request body) that starts with the marker \<^verbatim>\<open>dirigera_integration_empty_scene_\<close>, the
  prefix \<^verbatim>\<open>delete_empty_scenes\<close> tests for.
\<close>

theorem create_empty_scene_names_start_with_prefix:
  "\<forall>c \<in> set (new_calls h (create_empty_scene h controller_id clicks number_of_buttons)).
     \<exists>name. call_scene_name c = Some (JStr name) \<and>
            startswith name ''dirigera_integration_empty_scene_''"
proof
  fix c
  assume "c \<in> set (new_calls h (create_empty_scene h controller_id clicks number_of_buttons))"
  from created_call_cases [OF this] obtain click ctype b
    where c: "c = POST ''/scenes/'' (empty_scene_data controller_id click ctype b)"
    by blast
  have "call_scene_name c = Some (JStr (scene_name controller_id ctype b click))"
    by (simp add: c posted_name_empty_scene_data)
  then show "\<exists>name. call_scene_name c = Some (JStr name) \<and>
            startswith name ''dirigera_integration_empty_scene_''"
    using scene_name_prefix by blast
qed

theorem create_empty_scene_names_start_with_prefix_witness:
  "map call_scene_name
     (new_calls \<lparr>hub_calls = [], hub_scenes = [], hub_devices = []\<rparr>
        (create_empty_scene \<lparr>hub_calls = [], hub_scenes = [], hub_devices = []\<rparr> ''abc_1''
           [''singlePress''] (PyInt 2))) =
     [Some (JStr ''dirigera_integration_empty_scene_abc_1_shortcutController_0_singlePress''),
      Some (JStr ''dirigera_integration_empty_scene_abc_1_lightController_1_singlePress''),
      Some (JStr ''dirigera_integration_empty_scene_abc_1_lightController_2_singlePress'')] \<and>
   (\<exists>name. call_scene_name (multibutton_call ''abc_1'' ''singlePress'' 2) = Some (JStr name) \<and>
            startswith name ''dirigera_integration_empty_scene_'')"
proof -
  have allow: "allow_multibutton ''abc_1'' 2"
    by (simp add: allow_multibutton_def re_search_suffix_def is_ascii_digit_def newline_def)
  have upto: "[1..2] = [1, 2::int]" by code_simp
  have calls: "new_calls \<lparr>hub_calls = [], hub_scenes = [], hub_devices = []\<rparr>
        (create_empty_scene \<lparr>hub_calls = [], hub_scenes = [], hub_devices = []\<rparr> ''abc_1''
           [''singlePress''] (PyInt 2)) =
      [legacy_call ''abc_1'' ''singlePress'', multibutton_call ''abc_1'' ''singlePress'' 1,
       multibutton_call ''abc_1'' ''singlePress'' 2]"
    using allow upto
    by (simp add: new_calls_create_empty_scene coerce_number_of_buttons_def click_calls_multibutton)
  have names: "map call_scene_name
      [legacy_call ''abc_1'' ''singlePress'', multibutton_call ''abc_1'' ''singlePress'' 1,
       multibutton_call ''abc_1'' ''singlePress'' 2] =
     [Some (JStr ''dirigera_integration_empty_scene_abc_1_shortcutController_0_singlePress''),
      Some (JStr ''dirigera_integration_empty_scene_abc_1_lightController_1_singlePress''),
      Some (JStr ''dirigera_integration_empty_scene_abc_1_lightController_2_singlePress'')]"
    by (simp add: legacy_call_def multibutton_call_def posted_name_empty_scene_data scene_name_def
          py_str_int_def digit_char_def)
  have mem: "multibutton_call ''abc_1'' ''singlePress'' 2 \<in>
      set (new_calls \<lparr>hub_calls = [], hub_scenes = [], hub_devices = []\<rparr>
        (create_empty_scene \<lparr>hub_calls = [], hub_scenes = [], hub_devices = []\<rparr> ''abc_1''
           [''singlePress''] (PyInt 2)))"
    by (simp only: calls) simp
  from create_empty_scene_names_start_with_prefix
      [of "\<lparr>hub_calls = [], hub_scenes = [], hub_devices = []\<rparr>" "''abc_1''" "[''singlePress'']" "PyInt 2"]
    mem
  have "\<exists>name. call_scene_name (multibutton_call ''abc_1'' ''singlePress'' 2) = Some (JStr name) \<and>
            startswith name ''dirigera_integration_empty_scene_''"
    by (rule bspec)
  with calls names show ?thesis by simp
qed





section \<open>Properties of \<^verbatim>\<open>delete_empty_scenes\<close>\<close>

lemma hub_calls_delete_loop:
  "hub_calls (foldl (\<lambda>h scene. if startswith (hs_name scene) p
                                   then delete_scene h (hs_id scene) else h) h scenes) =
     hub_calls h @ map (\<lambda>s. DELETE_SCENE (hs_id s)) (filter (\<lambda>s. startswith (hs_name s) p) scenes)"
  by (induction scenes arbitrary: h) (simp_all add: delete_scene_def)

lemma make_scene_fields:
  "hs_id (make_scene j) = sj_id j"
  "hs_name (make_scene j) = info_name (sj_info j)"
  "hs_icon (make_scene j) = info_icon (sj_info j)"
  by (simp_all add: make_scene_def parse_scene_json_def)

lemma delete_empty_scenes_calls:
  "new_calls h (delete_empty_scenes h) =
     map (\<lambda>s. DELETE_SCENE (sj_id s))
       (filter (\<lambda>s. startswith (info_name (sj_info s)) ''dirigera_integration_empty_scene_'')
          (hub_scenes h))"
  by (simp add: new_calls_def delete_empty_scenes_def hub_calls_delete_loop get_scenes_def
        filter_map comp_def make_scene_fields)

text \<open>
  Claim C6. For every list of scenes the hub returns, \<^verbatim>\<open>delete_empty_scenes\<close> issues one
  delete call for each scene whose name starts with \<^verbatim>\<open>dirigera_integration_empty_scene_\<close>,
  in the order of the list, and no other call: every such scene is deleted, and (scene
  ids being distinct) no delete call names a scene whose name does not start with the
  prefix.
\<close>

theorem delete_empty_scenes_only_marked:
  "new_calls h (delete_empty_scenes h) =
     map (\<lambda>s. DELETE_SCENE (sj_id s))
       (filter (\<lambda>s. startswith (info_name (sj_info s)) ''dirigera_integration_empty_scene_'')
          (hub_scenes h)) \<and>
   (\<forall>s \<in> set (hub_scenes h).
      startswith (info_name (sj_info s)) ''dirigera_integration_empty_scene_'' \<longrightarrow>
      DELETE_SCENE (sj_id s) \<in> set (new_calls h (delete_empty_scenes h))) \<and>
   (distinct (map sj_id (hub_scenes h)) \<longrightarrow>
      (\<forall>s \<in> set (hub_scenes h).
         \<not> startswith (info_name (sj_info s)) ''dirigera_integration_empty_scene_'' \<longrightarrow>
         DELETE_SCENE (sj_id s) \<notin> set (new_calls h (delete_empty_scenes h))))"
proof -
  let ?marked = "\<lambda>s. startswith (info_name (sj_info s)) ''dirigera_integration_empty_scene_''"
  have a: "new_calls h (delete_empty_scenes h) =
     map (\<lambda>s. DELETE_SCENE (sj_id s)) (filter ?marked (hub_scenes h))"
    by (rule delete_empty_scenes_calls)
  have b: "\<forall>s \<in> set (hub_scenes h). ?marked s \<longrightarrow>
      DELETE_SCENE (sj_id s) \<in> set (new_calls h (delete_empty_scenes h))"
    unfolding a by auto
  have c: "DELETE_SCENE (sj_id s) \<notin> set (new_calls h (delete_empty_scenes h))"
    if d: "distinct (map sj_id (hub_scenes h))" and s: "s \<in> set (hub_scenes h)" and n: "\<not> ?marked s"
    for s
  proof
    assume "DELETE_SCENE (sj_id s) \<in> set (new_calls h (delete_empty_scenes h))"
    then obtain s' where s': "s' \<in> set (hub_scenes h)" and m: "?marked s'" and e: "sj_id s' = sj_id s"
      unfolding a by auto
    from d have "inj_on sj_id (set (hub_scenes h))" by (simp add: distinct_map)
    with s s' e have "s' = s" by (auto dest: inj_onD)
    with m n show False by simp
  qed
  from a b c show ?thesis by blast
qed

theorem delete_empty_scenes_only_marked_witness:
  "new_calls
     \<lparr>hub_calls = [],
      hub_scenes = [\<lparr>sj_id = ''1'', sj_info = \<lparr>info_name = ''Movie night'', info_icon = ''scenes_tv''\<rparr>\<rparr>,
                    \<lparr>sj_id = ''2'', sj_info = \<lparr>info_name = ''dirigera_integration_empty_scene_abc_shortcutController_0_singlePress'', info_icon = ''scenes_cake''\<rparr>\<rparr>],
      hub_devices = []\<rparr>
     (delete_empty_scenes
        \<lparr>hub_calls = [],
      hub_scenes = [\<lparr>sj_id = ''1'', sj_info = \<lparr>info_name = ''Movie night'', info_icon = ''scenes_tv''\<rparr>\<rparr>,
                    \<lparr>sj_id = ''2'', sj_info = \<lparr>info_name = ''dirigera_integration_empty_scene_abc_shortcutController_0_singlePress'', info_icon = ''scenes_cake''\<rparr>\<rparr>],
      hub_devices = []\<rparr>) = [DELETE_SCENE ''2''] \<and>
   DELETE_SCENE ''1'' \<notin> set (new_calls
     \<lparr>hub_calls = [],
      hub_scenes = [\<lparr>sj_id = ''1'', sj_info = \<lparr>info_name = ''Movie night'', info_icon = ''scenes_tv''\<rparr>\<rparr>,
                    \<lparr>sj_id = ''2'', sj_info = \<lparr>info_name = ''dirigera_integration_empty_scene_abc_shortcutController_0_singlePress'', info_icon = ''scenes_cake''\<rparr>\<rparr>],
      hub_devices = []\<rparr>
     (delete_empty_scenes
        \<lparr>hub_calls = [],
      hub_scenes = [\<lparr>sj_id = ''1'', sj_info = \<lparr>info_name = ''Movie night'', info_icon = ''scenes_tv''\<rparr>\<rparr>,
                    \<lparr>sj_id = ''2'', sj_info = \<lparr>info_name = ''dirigera_integration_empty_scene_abc_shortcutController_0_singlePress'', info_icon = ''scenes_cake''\<rparr>\<rparr>],
      hub_devices = []\<rparr>))"
proof -
  let ?movie = "\<lparr>sj_id = ''1'', sj_info = \<lparr>info_name = ''Movie night'', info_icon = ''scenes_tv''\<rparr>\<rparr>"
  let ?h = "\<lparr>hub_calls = [],
      hub_scenes = [\<lparr>sj_id = ''1'', sj_info = \<lparr>info_name = ''Movie night'', info_icon = ''scenes_tv''\<rparr>\<rparr>,
                    \<lparr>sj_id = ''2'', sj_info = \<lparr>info_name = ''dirigera_integration_empty_scene_abc_shortcutController_0_singlePress'', info_icon = ''scenes_cake''\<rparr>\<rparr>],
      hub_devices = []\<rparr>"
  note t = delete_empty_scenes_only_marked [of ?h]
  have d: "distinct (map sj_id (hub_scenes ?h))" by simp
  have m: "?movie \<in> set (hub_scenes ?h)" by simp
  have n: "\<not> startswith (info_name (sj_info ?movie)) ''dirigera_integration_empty_scene_''"
    by (simp add: startswith_def)
  from t d m n have "DELETE_SCENE (sj_id ?movie) \<notin> set (new_calls ?h (delete_empty_scenes ?h))"
    by blast
  then have "DELETE_SCENE ''1'' \<notin> set (new_calls ?h (delete_empty_scenes ?h))" by simp
  moreover from t have "new_calls ?h (delete_empty_scenes ?h) = [DELETE_SCENE ''2'']"
    by (simp add: startswith_def)
  ultimately show ?thesis by blast
qed

section \<open>Properties of the sensor getters\<close>

lemma get_motion_sensor_by_id_fetched:
  assumes "get_device_data_by_id h i = Returns d" and "py_getitem d ''deviceType'' = Returns t"
  shows "get_motion_sensor_by_id accepts h i =
           (if t = JStr ''motionSensor'' \<or> t = JStr ''occupancySensor''
            then (if has_attributes d \<and> accepts d
                  then Returns (MotionSensorX d) else Raises ValidationError)
            else Raises (ValueError ''Device is not a MotionSensor or OccupancySensor''))"
  using assms by (simp add: get_motion_sensor_by_id_def dict_to_motion_sensor_x_def)

lemma get_environment_sensor_by_id_fetched:
  assumes "get_device_data_by_id h i = Returns d" and "py_getitem d ''deviceType'' = Returns t"
  shows "get_environment_sensor_by_id accepts h i =
           (if t = JStr ''environmentSensor''
            then (if has_attributes d \<and> accepts d
                  then Returns (EnvironmentSensorX d) else Raises ValidationError)
            else Raises (ValueError ''Device is not an EnvironmentSensor''))"
  using assms by (simp add: get_environment_sensor_by_id_def dict_to_environment_sensor_x_def)

lemma getters_propagate_fetch_error:
  assumes "get_device_data_by_id h i = Raises e"
  shows "get_motion_sensor_by_id accepts h i = Raises e"
    and "get_environment_sensor_by_id accepts h i = Raises e"
  using assms by (simp_all add: get_motion_sensor_by_id_def get_environment_sensor_by_id_def)

lemma getters_unknown_id:
  assumes "find (\<lambda>d. obj_get d ''id'' = Some (JStr i)) (hub_devices h) = None"
  shows "get_motion_sensor_by_id accepts h i = Raises (ValueError ''Device id not found'')"
    and "get_environment_sensor_by_id accepts h i = Raises (ValueError ''Device id not found'')"
  using assms
  by (simp_all add: get_motion_sensor_by_id_def get_environment_sensor_by_id_def
        get_device_data_by_id_def)

text \<open>
  Claim C8 says that \<^verbatim>\<open>get_motion_sensor_by_id\<close> raises a \<^verbatim>\<open>ValueError\<close> only when the
  device type does not match. The device \<^verbatim>\<open>{"id": "d1", "deviceType": "motionSensor"}\<close>
  has a matching type and no \<^verbatim>\<open>attributes\<close>: the constructor of \<^verbatim>\<open>MotionSensorX\<close> raises
  its validation error, which is a \<^verbatim>\<open>ValueError\<close>.
\<close>

theorem sensor_by_id_matching_type_raises_value_error:
  "get_device_data_by_id
     \<lparr>hub_calls = [], hub_scenes = [],
      hub_devices = [JObj [(''id'', JStr ''d1''), (''deviceType'', JStr ''motionSensor'')]]\<rparr> ''d1'' =
     Returns (JObj [(''id'', JStr ''d1''), (''deviceType'', JStr ''motionSensor'')]) \<and>
   py_getitem (JObj [(''id'', JStr ''d1''), (''deviceType'', JStr ''motionSensor'')]) ''deviceType'' =
     Returns (JStr ''motionSensor'') \<and>
   get_motion_sensor_by_id lenient
     \<lparr>hub_calls = [], hub_scenes = [],
      hub_devices = [JObj [(''id'', JStr ''d1''), (''deviceType'', JStr ''motionSensor'')]]\<rparr> ''d1'' =
     Raises ValidationError \<and>
   is_ValueError ValidationError"
  by (simp add: get_motion_sensor_by_id_def get_device_data_by_id_def dict_to_motion_sensor_x_def
        has_attributes_def lenient_def)

text \<open>
  Claim C8, amended. For the device dict the hub returns for the id and its
  \<^verbatim>\<open>deviceType\<close>: \<^verbatim>\<open>get_motion_sensor_by_id\<close> raises its own
  \<^verbatim>\<open>ValueError("Device is not a MotionSensor or OccupancySensor")\<close> exactly when the type
  is neither \<^verbatim>\<open>motionSensor\<close> nor \<^verbatim>\<open>occupancySensor\<close>, and \<^verbatim>\<open>get_environment_sensor_by_id\<close>
  its own \<^verbatim>\<open>ValueError("Device is not an EnvironmentSensor")\<close> exactly when the type is
  not \<^verbatim>\<open>environmentSensor\<close>. On a matching type each returns what the constructor of its
  class gives: the patched sensor object when the data passes the validation, the
  constructor's validation error when it does not.
\<close>

theorem sensor_by_id_type_check:
  assumes "get_device_data_by_id h i = Returns d"
    and "py_getitem d ''deviceType'' = Returns t"
  shows "(get_motion_sensor_by_id accepts h i =
            Raises (ValueError ''Device is not a MotionSensor or OccupancySensor'') \<longleftrightarrow>
          t \<noteq> JStr ''motionSensor'' \<and> t \<noteq> JStr ''occupancySensor'') \<and>
         ((t = JStr ''motionSensor'' \<or> t = JStr ''occupancySensor'') \<and> has_attributes d \<and> accepts d \<longrightarrow>
            get_motion_sensor_by_id accepts h i = Returns (MotionSensorX d)) \<and>
         ((t = JStr ''motionSensor'' \<or> t = JStr ''occupancySensor'') \<and> \<not> (has_attributes d \<and> accepts d) \<longrightarrow>
            get_motion_sensor_by_id accepts h i = Raises ValidationError) \<and>
         (get_environment_sensor_by_id accepts h i =
            Raises (ValueError ''Device is not an EnvironmentSensor'') \<longleftrightarrow>
          t \<noteq> JStr ''environmentSensor'') \<and>
         (t = JStr ''environmentSensor'' \<and> has_attributes d \<and> accepts d \<longrightarrow>
            get_environment_sensor_by_id accepts h i = Returns (EnvironmentSensorX d)) \<and>
         (t = JStr ''environmentSensor'' \<and> \<not> (has_attributes d \<and> accepts d) \<longrightarrow>
            get_environment_sensor_by_id accepts h i = Raises ValidationError)"
  unfolding get_motion_sensor_by_id_fetched [OF assms] get_environment_sensor_by_id_fetched [OF assms]
  by simp

theorem sensor_by_id_type_check_witness:
  "get_motion_sensor_by_id lenient
     \<lparr>hub_calls = [], hub_scenes = [],
      hub_devices = [JObj [(''id'', JStr ''d1''), (''deviceType'', JStr ''occupancySensor''),
                           (''attributes'', JObj [(''customName'', JStr ''Hall'')])]]\<rparr> ''d1'' =
     Returns (MotionSensorX
       (JObj [(''id'', JStr ''d1''), (''deviceType'', JStr ''occupancySensor''),
              (''attributes'', JObj [(''customName'', JStr ''Hall'')])])) \<and>
   get_environment_sensor_by_id lenient
     \<lparr>hub_calls = [], hub_scenes = [],
      hub_devices = [JObj [(''id'', JStr ''d1''), (''deviceType'', JStr ''occupancySensor''),
                           (''attributes'', JObj [(''customName'', JStr ''Hall'')])]]\<rparr> ''d1'' =
     Raises (ValueError ''Device is not an EnvironmentSensor'')"
proof -
  let ?d = "JObj [(''id'', JStr ''d1''), (''deviceType'', JStr ''occupancySensor''),
                  (''attributes'', JObj [(''customName'', JStr ''Hall'')])]"
  let ?h = "\<lparr>hub_calls = [], hub_scenes = [], hub_devices = [?d]\<rparr>"
  have f: "get_device_data_by_id ?h ''d1'' = Returns ?d"
    by (simp add: get_device_data_by_id_def)
  have ty: "py_getitem ?d ''deviceType'' = Returns (JStr ''occupancySensor'')"
    by simp
  note t = sensor_by_id_type_check [OF f ty, of lenient]
  have ok: "(JStr ''occupancySensor'' = JStr ''motionSensor'' \<or>
             JStr ''occupancySensor'' = JStr ''occupancySensor'') \<and>
            has_attributes ?d \<and> lenient ?d"
    by (simp add: has_attributes_def lenient_def)
  have ne: "JStr ''occupancySensor'' \<noteq> JStr ''environmentSensor''" by simp
  from t ok have a: "get_motion_sensor_by_id lenient ?h ''d1'' = Returns (MotionSensorX ?d)"
    by blast
  from t ne have b: "get_environment_sensor_by_id lenient ?h ''d1'' =
      Raises (ValueError ''Device is not an EnvironmentSensor'')"
    by blast
  from a b show ?thesis by (rule conjI)
qed

section \<open>Properties of \<^verbatim>\<open>set_name\<close>\<close>

lemma set_name_with_capability:
  assumes "''customName'' \<in> set (can_receive (device_capabilities self))"
  shows "ControllerX_set_name h self name =
           (Returns (),
            h\<lparr>hub_calls := hub_calls h @
               [PATCH (''/devices/'' @ device_id self)
                  (JList [JObj [(''attributes'', JObj [(''customName'', JStr name)])]])]\<rparr>,
            self\<lparr>device_attributes := (device_attributes self)\<lparr>custom_name := name\<rparr>\<rparr>)"
    and "MotionSensorX_set_name h self name = ControllerX_set_name h self name"
    and "EnvironmentSensorX_set_name h self name = ControllerX_set_name h self name"
  using assms
  by (simp_all add: ControllerX_set_name_def MotionSensorX_set_name_def
        EnvironmentSensorX_set_name_def hub_patch_def Let_def)

text \<open>
  Claim C9. For a controller, a motion sensor and an environment sensor alike: when
  \<^verbatim>\<open>customName\<close> is not in \<^verbatim>\<open>capabilities.can_receive\<close>, \<^verbatim>\<open>set_name\<close> raises an
  \<^verbatim>\<open>AssertionError\<close>, the hub has received no call and the object is unchanged; when the
  capability is there, \<^verbatim>\<open>set_name\<close> returns without raising.
\<close>

theorem set_name_needs_capability:
  "(''customName'' \<notin> set (can_receive (device_capabilities self)) \<longrightarrow>
      (\<exists>msg. ControllerX_set_name h self name = (Raises (AssertionError msg), h, self)) \<and>
      (\<exists>msg. MotionSensorX_set_name h self name = (Raises (AssertionError msg), h, self)) \<and>
      (\<exists>msg. EnvironmentSensorX_set_name h self name = (Raises (AssertionError msg), h, self))) \<and>
   (''customName'' \<in> set (can_receive (device_capabilities self)) \<longrightarrow>
      fst (ControllerX_set_name h self name) = Returns () \<and>
      fst (MotionSensorX_set_name h self name) = Returns () \<and>
      fst (EnvironmentSensorX_set_name h self name) = Returns ())"
  by (simp add: ControllerX_set_name_def MotionSensorX_set_name_def EnvironmentSensorX_set_name_def
        Let_def)

theorem set_name_needs_capability_witness:
  "(\<exists>msg. ControllerX_set_name \<lparr>hub_calls = [], hub_scenes = [], hub_devices = []\<rparr>
      \<lparr>device_id = ''c1'', deviceType = ''controller'',
       device_capabilities = \<lparr>can_send = [''singlePress''], can_receive = []\<rparr>,
       device_attributes = \<lparr>custom_name = ''Remote''\<rparr>\<rparr> ''Desk'' =
     (Raises (AssertionError msg), \<lparr>hub_calls = [], hub_scenes = [], hub_devices = []\<rparr>,
      \<lparr>device_id = ''c1'', deviceType = ''controller'',
       device_capabilities = \<lparr>can_send = [''singlePress''], can_receive = []\<rparr>,
       device_attributes = \<lparr>custom_name = ''Remote''\<rparr>\<rparr>)) \<and>
   fst (ControllerX_set_name \<lparr>hub_calls = [], hub_scenes = [], hub_devices = []\<rparr>
      \<lparr>device_id = ''c1'', deviceType = ''controller'',
       device_capabilities = \<lparr>can_send = [''singlePress''], can_receive = [''customName'']\<rparr>,
       device_attributes = \<lparr>custom_name = ''Remote''\<rparr>\<rparr> ''Desk'') = Returns ()"
proof -
  let ?h = "\<lparr>hub_calls = [], hub_scenes = [], hub_devices = []\<rparr>"
  let ?c = "\<lparr>device_id = ''c1'', deviceType = ''controller'',
       device_capabilities = \<lparr>can_send = [''singlePress''], can_receive = []\<rparr>,
       device_attributes = \<lparr>custom_name = ''Remote''\<rparr>\<rparr>"
  let ?c' = "\<lparr>device_id = ''c1'', deviceType = ''controller'',
       device_capabilities = \<lparr>can_send = [''singlePress''], can_receive = [''customName'']\<rparr>,
       device_attributes = \<lparr>custom_name = ''Remote''\<rparr>\<rparr>"
  have no: "''customName'' \<notin> set (can_receive (device_capabilities ?c))" by simp
  have yes: "''customName'' \<in> set (can_receive (device_capabilities ?c'))" by simp
  from set_name_needs_capability [of ?c ?h "''Desk''"] no
  have a: "\<exists>msg. ControllerX_set_name ?h ?c ''Desk'' = (Raises (AssertionError msg), ?h, ?c)"
    by blast
  from set_name_needs_capability [of ?c' ?h "''Desk''"] yes
  have b: "fst (ControllerX_set_name ?h ?c' ''Desk'') = Returns ()"
    by blast
  from a b show ?thesis by blast
qed

section \<open>Primary and secondary controller ids\<close>

lemma re_search_suffix_no_newline:
  assumes "newline \<notin> set s"
  shows "map_option snd (re_search_suffix s) = numeric_suffix s"
proof -
  have body: "(if s \<noteq> [] \<and> last s = newline then butlast s else s) = s"
    using assms last_in_set by fastforce
  have "set (dropWhile is_ascii_digit (rev s)) \<subseteq> set s"
    using set_dropWhileD by fastforce
  then have pre: "newline \<notin> set pre" if "dropWhile is_ascii_digit (rev s) = c # pre" for c pre
    using assms that by auto
  show ?thesis
  proof (cases "dropWhile is_ascii_digit (rev s)")
    case Nil
    show ?thesis
      unfolding re_search_suffix_def numeric_suffix_def body Let_def Nil by simp
  next
    case (Cons c rest)
    show ?thesis
      unfolding re_search_suffix_def numeric_suffix_def body Let_def Cons
      using pre [OF Cons] by simp
  qed
qed

lemma allow_multibutton_no_newline:
  assumes "newline \<notin> set controller_id"
  shows "allow_multibutton controller_id n \<longleftrightarrow>
           n > 1 \<and> (numeric_suffix controller_id = None \<or> numeric_suffix controller_id = Some ''1'')"
proof -
  note e = re_search_suffix_no_newline [OF assms, symmetric]
  show ?thesis
    unfolding allow_multibutton_def e by (auto split: option.splits)
qed

lemma upto_1_3: "[1..3] = [1, 2, 3::int]"
  by code_simp

lemma create_empty_scene_primary_three_buttons:
  assumes "newline \<notin> set controller_id" and "numeric_suffix controller_id = None"
  shows "new_calls h (create_empty_scene h controller_id [''singlePress''] (PyInt 3)) =
           [legacy_call controller_id ''singlePress'',
            multibutton_call controller_id ''singlePress'' 1,
            multibutton_call controller_id ''singlePress'' 2,
            multibutton_call controller_id ''singlePress'' 3]"
proof -
  have "allow_multibutton controller_id 3"
    using assms by (simp add: allow_multibutton_no_newline)
  then show ?thesis
    by (simp add: new_calls_create_empty_scene coerce_number_of_buttons_def
          click_calls_multibutton upto_1_3)
qed

lemma multibutton_calls_iff:
  "(\<exists>c \<in> set (new_calls h (create_empty_scene h controller_id clicks number_of_buttons)).
      call_trigger_field c ''controllerType'' = Some (JStr ''lightController'')) \<longleftrightarrow>
   clicks \<noteq> [] \<and> allow_multibutton controller_id (coerce_number_of_buttons number_of_buttons)"
proof
  assume "\<exists>c \<in> set (new_calls h (create_empty_scene h controller_id clicks number_of_buttons)).
      call_trigger_field c ''controllerType'' = Some (JStr ''lightController'')"
  then obtain c click where cl: "click \<in> set clicks"
    and c: "c \<in> set (click_calls controller_id
                 (allow_multibutton controller_id (coerce_number_of_buttons number_of_buttons))
                 (coerce_number_of_buttons number_of_buttons) click)"
    and t: "call_trigger_field c ''controllerType'' = Some (JStr ''lightController'')"
    by (auto simp: new_calls_create_empty_scene)
  from click_calls_cases [OF c] t
  have "allow_multibutton controller_id (coerce_number_of_buttons number_of_buttons)"
    by (auto simp: legacy_call_def posted_trigger_field_empty_scene_data)
  with cl show "clicks \<noteq> [] \<and> allow_multibutton controller_id (coerce_number_of_buttons number_of_buttons)"
    by auto
next
  let ?n = "coerce_number_of_buttons number_of_buttons"
  assume a: "clicks \<noteq> [] \<and> allow_multibutton controller_id ?n"
  then obtain click where cl: "click \<in> set clicks" by (cases clicks) auto
  from a have "?n > 1"
    using allow_multibutton_needs_more_than_one [of ?n controller_id] by (cases "?n \<le> 1") auto
  then have "1 \<in> set [1..?n]" by simp
  then have "multibutton_call controller_id click 1 \<in> set (click_calls controller_id True ?n click)"
    by (simp add: click_calls_multibutton)
  with a cl have "multibutton_call controller_id click 1 \<in>
      set (new_calls h (create_empty_scene h controller_id clicks number_of_buttons))"
    by (auto simp: new_calls_create_empty_scene)
  moreover have "call_trigger_field (multibutton_call controller_id click 1) ''controllerType'' =
      Some (JStr ''lightController'')"
    by (simp add: multibutton_call_def posted_trigger_field_empty_scene_data)
  ultimately show "\<exists>c \<in> set (new_calls h (create_empty_scene h controller_id clicks number_of_buttons)).
      call_trigger_field c ''controllerType'' = Some (JStr ''lightController'')"
    by blast
qed

lemma multibutton_calls_iff_no_newline:
  assumes "newline \<notin> set controller_id" and "clicks \<noteq> []"
  shows "(\<exists>c \<in> set (new_calls h (create_empty_scene h controller_id clicks number_of_buttons)).
            call_trigger_field c ''controllerType'' = Some (JStr ''lightController'')) \<longleftrightarrow>
         coerce_number_of_buttons number_of_buttons > 1 \<and>
         (numeric_suffix controller_id = None \<or> numeric_suffix controller_id = Some ''1'')"
  using assms by (simp add: multibutton_calls_iff allow_multibutton_no_newline)

text \<open>
  Claim C1 says that an id which does not end in a numeric \<^verbatim>\<open>_N\<close> suffix, with three
  buttons and the one click pattern \<^verbatim>\<open>singlePress\<close>, gets four scenes: the legacy one
  and the buttons 1, 2 and 3. For ids without a line feed this is
  \<open>create_empty_scene_primary_three_buttons\<close>. The id \<^verbatim>\<open>"abc_2\n"\<close> ends in a line
  feed, not in a numeric suffix, yet \<^verbatim>\<open>$\<close> matches before the final line feed, the
  pattern finds the group \<^verbatim>\<open>2\<close>, and the legacy scene is the only one created.
\<close>

theorem create_empty_scene_id_with_final_line_feed:
  "numeric_suffix (''abc_2'' @ [newline]) = None \<and>
   new_calls h (create_empty_scene h (''abc_2'' @ [newline]) [''singlePress''] (PyInt 3)) =
     [legacy_call (''abc_2'' @ [newline]) ''singlePress'']"
proof -
  have "numeric_suffix (''abc_2'' @ [newline]) = None"
    by (simp add: numeric_suffix_def newline_def is_ascii_digit_def)
  moreover have "\<not> allow_multibutton (''abc_2'' @ [newline]) 3"
    by (simp add: allow_multibutton_def re_search_suffix_def newline_def is_ascii_digit_def)
  ultimately show ?thesis
    by (simp add: new_calls_create_empty_scene coerce_number_of_buttons_def click_calls_legacy_only)
qed

text \<open>
  Claim C2 says that multi-button scenes are created exactly when the button count
  exceeds 1 and the id has no numeric suffix or the suffix \<^verbatim>\<open>_1\<close>, so that an id ending
  in \<^verbatim>\<open>_2\<close> gets the legacy scene only. For ids without a line feed this is
  \<open>multibutton_calls_iff_no_newline\<close>. The id \<^verbatim>\<open>"a\nb_2"\<close> ends in \<^verbatim>\<open>_2\<close>, yet \<^verbatim>\<open>.\<close>
  does not match its line feed, the pattern does not match, and with three buttons the
  three \<^verbatim>\<open>lightController\<close> scenes are created as for a primary id.
\<close>

theorem create_empty_scene_id_with_inner_line_feed:
  "numeric_suffix (''a'' @ [newline] @ ''b_2'') = Some ''2'' \<and>
   new_calls h (create_empty_scene h (''a'' @ [newline] @ ''b_2'') [''singlePress''] (PyInt 3)) =
     [legacy_call (''a'' @ [newline] @ ''b_2'') ''singlePress'',
      multibutton_call (''a'' @ [newline] @ ''b_2'') ''singlePress'' 1,
      multibutton_call (''a'' @ [newline] @ ''b_2'') ''singlePress'' 2,
      multibutton_call (''a'' @ [newline] @ ''b_2'') ''singlePress'' 3]"
proof -
  have "numeric_suffix (''a'' @ [newline] @ ''b_2'') = Some ''2''"
    by (simp add: numeric_suffix_def newline_def is_ascii_digit_def)
  moreover have "allow_multibutton (''a'' @ [newline] @ ''b_2'') 3"
    by (simp add: allow_multibutton_def re_search_suffix_def newline_def is_ascii_digit_def)
  ultimately show ?thesis
    by (simp add: new_calls_create_empty_scene coerce_number_of_buttons_def
          click_calls_multibutton upto_1_3)
qed

end
